theory Spec2Isabelle
  imports Complex_Main "HOL-Library.Sublist"
begin

section \<open>The document merge pipeline of MANEA-PDF (services/pdfService)\<close>

text \<open>
  The pipeline is glue around four libraries that live on the global \<open>window\<close> object
  (PDFLib, mammoth, XLSX, html2canvas), the DOM and the caller's progress callback.
  The libraries are parameters of the model (the record \<open>env\<close>): every awaited call into a
  parser, converter or renderer returns either a thrown error or a value.  The output
  document, the children of \<open>document.body\<close>, the caller's state and the sequence of side
  effects are the explicit state (the record \<open>world\<close>).  JavaScript numbers are modelled as
  real numbers.  A \<open>File\<close> is an immutable blob, so reading its bytes does not fail.
  Of the page operations of PDFLib, \<open>drawText\<close> throws for a text that the standard font
  cannot encode, and \<open>save\<close> adds a page to a document that has none; \<open>addPage\<close>,
  \<open>getSize\<close>, \<open>getHeight\<close> and \<open>drawImage\<close> are total (a 0 by 0 image, for which the
  placement is not a number, is outside the model).  \<open>console.error\<close> is not recorded.
\<close>

subsection \<open>Data\<close>

type_synonym bytes = "nat list"

text \<open>Whatever a rejected promise or a \<open>throw\<close> carries.\<close>

datatype error = Thrown string

text \<open>A browser \<open>File\<close>: \<open>file.name\<close>, \<open>file.type\<close> and what \<open>file.arrayBuffer()\<close> resolves to.\<close>

record File =
  name :: string
  type :: string
  arrayBuffer :: bytes

text \<open>The \<open>{width, height}\<close> objects returned by \<open>page.getSize()\<close> and \<open>image.scale(1)\<close>.\<close>

datatype dims = Dims (width: real) (height: real)

text \<open>An image embedded in the output document, with its pixel size.\<close>

datatype image = Image real real

fun scale :: "image \<Rightarrow> real \<Rightarrow> dims" where
  "scale (Image w h) factor = Dims (w * factor) (h * factor)"

datatype color = rgb real real real

text \<open>
  What has been drawn on a page: \<open>drawText(text, {x, y, size, color})\<close> and
  \<open>drawImage(image, {x, y, width, height})\<close>.
\<close>

datatype draw =
    DrawText string real real real color
  | DrawImage image real real real real

text \<open>
  A page of the output document: its size, the content it was copied from (\<open>None\<close> for a
  page created by \<open>addPage()\<close>), and the drawing operations applied to it, in order.
  A donor document is the list of its pages, each a size and an opaque content.
\<close>

type_synonym content = "nat list"

datatype page = Page (getSize: dims) (copiedFrom: "content option") (drawn: "draw list")

type_synonym donor = "(dims \<times> content) list"

text \<open>A workbook as XLSX.read returns it: sheet names in order, and the sheets by name.\<close>

type_synonym worksheet = "string list list"

record workbook =
  SheetNames :: "string list"
  Sheets :: "string \<rightharpoonup> worksheet"

text \<open>The canvas html2canvas resolves to (its pixel size).\<close>

datatype canvas = Canvas nat nat

text \<open>
  A DOM element: its tag, the inline style properties the code sets, and its serialized
  content.  A reference to an element (what \<open>document.createElement\<close> returns and the DOM
  calls take) is the element with its identity, a number no other element has.
\<close>

record element =
  tagName :: string
  style_position :: string
  style_left :: string
  style_width :: string
  style_padding :: string
  style_backgroundColor :: string
  style_boxSizing :: string
  style_direction :: string
  innerHTML :: string

type_synonym node = "nat \<times> element"

text \<open>
  The side effects, in the order they happen: a call of the progress callback with its
  argument, a page appended to the output document, and the DOM and renderer calls of
  the rasterization routine.
\<close>

datatype event =
    Progress string
  | AddPage
  | AppendChild node
  | Html2canvas node
  | RemoveChild node

text \<open>
  The libraries on \<open>window\<close>, the default size of a page created by \<open>addPage()\<close>, and which
  characters other than the printable ASCII ones the standard font of PDFLib can encode.
\<close>

record env =
  PDFDocument_create :: "error + unit"
  page_size :: dims
  embedJpg :: "bytes \<Rightarrow> error + image"
  embedPng :: "bytes \<Rightarrow> error + image"
  PDFDocument_load :: "bytes \<Rightarrow> error + donor"
  copyPages :: "donor \<Rightarrow> nat list \<Rightarrow> error + (dims \<times> content) list"
  save :: "page list \<Rightarrow> error + bytes"
  convertToHtml :: "bytes \<Rightarrow> error + string"
  XLSX_read :: "bytes \<Rightarrow> error + workbook"
  sheet_to_html :: "worksheet option \<Rightarrow> error + string"
  html2canvas :: "element \<Rightarrow> real \<Rightarrow> error + canvas"
  toDataURL :: "canvas \<Rightarrow> string \<Rightarrow> real \<Rightarrow> error + string"
  fetch_arrayBuffer :: "string \<Rightarrow> error + bytes"
  canEncode :: "char \<Rightarrow> bool"

text \<open>
  The state: the output document under construction (\<open>mergedPdfDoc\<close>, called \<open>pdfDoc\<close>
  inside the rasterization routine), the children of \<open>document.body\<close>, the number of
  elements created so far (the identity of the next one), the caller's state that the
  progress callback updates, and the effects so far.
\<close>

record 'u world =
  pdfDoc :: "page list"
  body :: "node list"
  nodes :: nat
  ui :: 'u
  trace :: "event list"

subsection \<open>Strings\<close>

text \<open>
  \<open>String.prototype.startsWith\<close> and \<open>endsWith\<close>, and \<open>toLowerCase\<close> on the ASCII letters
  (no other character lower-cases to a character of \<open>.docx\<close> or \<open>.xlsx\<close>).
\<close>

definition startsWith :: "string \<Rightarrow> string \<Rightarrow> bool" where
  "startsWith s p = prefix p s"

definition endsWith :: "string \<Rightarrow> string \<Rightarrow> bool" where
  "endsWith s p = suffix p s"

definition lower_char :: "char \<Rightarrow> char" where
  "lower_char c =
     (let n = (of_char c :: nat) in if 65 \<le> n \<and> n \<le> 90 then char_of (n + 32) else c)"

definition toLowerCase :: "string \<Rightarrow> string" where
  "toLowerCase s = map lower_char s"

subsection \<open>The output document and the DOM\<close>

definition emit :: "event \<Rightarrow> 'u world \<Rightarrow> 'u world" where
  "emit e w = w\<lparr>trace := trace w @ [e]\<rparr>"

text \<open>\<open>addPage()\<close> appends a blank page of the default size and returns a handle on it.\<close>

definition addPage :: "env \<Rightarrow> 'u world \<Rightarrow> nat \<times> 'u world" where
  "addPage env w =
     (length (pdfDoc w), emit AddPage (w\<lparr>pdfDoc := pdfDoc w @ [Page (page_size env) None []]\<rparr>))"

text \<open>\<open>addPage(page)\<close> appends a page copied from a donor document.\<close>

definition addCopiedPage :: "dims \<times> content \<Rightarrow> 'u world \<Rightarrow> 'u world" where
  "addCopiedPage p w =
     emit AddPage (w\<lparr>pdfDoc := pdfDoc w @ [Page (fst p) (Some (snd p)) []]\<rparr>)"

definition getPage :: "nat \<Rightarrow> 'u world \<Rightarrow> page" where
  "getPage page w = pdfDoc w ! page"

definition getHeight :: "nat \<Rightarrow> 'u world \<Rightarrow> real" where
  "getHeight page w = height (getSize (getPage page w))"

definition drawOn :: "nat \<Rightarrow> draw \<Rightarrow> 'u world \<Rightarrow> 'u world" where
  "drawOn page d w =
     w\<lparr>pdfDoc := (pdfDoc w)[page :=
         Page (getSize (getPage page w)) (copiedFrom (getPage page w)) (drawn (getPage page w) @ [d])]\<rparr>"

text \<open>
  \<open>page.drawText\<close> draws with the standard font (Helvetica in the WinAnsi encoding) when
  no font is given.  The text is encoded before anything is drawn, and a character the
  font cannot encode makes the call throw and leaves the page as it was.  A string is
  the list of the bytes of its UTF-8 form: a printable ASCII character is one byte, which
  the font encodes; whether another byte belongs to a character that the font encodes
  is a parameter.
\<close>

definition printable :: "char \<Rightarrow> bool" where
  "printable c = (32 \<le> (of_char c :: nat) \<and> (of_char c :: nat) \<le> 126)"

definition encodable :: "env \<Rightarrow> string \<Rightarrow> bool" where
  "encodable env text = list_all (\<lambda>c. printable c \<or> canEncode env c) text"

definition drawText ::
  "env \<Rightarrow> nat \<Rightarrow> string \<Rightarrow> real \<Rightarrow> real \<Rightarrow> real \<Rightarrow> color \<Rightarrow> 'u world \<Rightarrow> (error + unit) \<times> 'u world" where
  "drawText env page text x y sz c w =
     (if encodable env text then (Inr (), drawOn page (DrawText text x y sz c) w)
      else (Inl (Thrown ''WinAnsi cannot encode''), w))"

definition drawImage :: "nat \<Rightarrow> image \<Rightarrow> real \<Rightarrow> real \<Rightarrow> real \<Rightarrow> real \<Rightarrow> 'u world \<Rightarrow> 'u world" where
  "drawImage page img x y w' h' w = drawOn page (DrawImage img x y w' h') w"

text \<open>\<open>getPageIndices()\<close> of a donor document.\<close>

definition getPageIndices :: "donor \<Rightarrow> nat list" where
  "getPageIndices d = [0 ..< length d]"

text \<open>\<open>document.createElement(tag)\<close>: a new element, not attached to the document.\<close>

definition createElement :: "string \<Rightarrow> 'u world \<Rightarrow> node \<times> 'u world" where
  "createElement tag w =
     ((nodes w, \<lparr>tagName = tag, style_position = [], style_left = [], style_width = [],
       style_padding = [], style_backgroundColor = [], style_boxSizing = [],
       style_direction = [], innerHTML = []\<rparr>),
      w\<lparr>nodes := nodes w + 1\<rparr>)"

text \<open>
  \<open>document.body.appendChild(c)\<close> makes \<open>c\<close> the last child of the body (moving it if it
  is a child already); \<open>document.body.removeChild(c)\<close> removes it and throws when \<open>c\<close> is
  not a child of the body.  Elements are compared by identity.
\<close>

definition appendChild :: "node \<Rightarrow> 'u world \<Rightarrow> 'u world" where
  "appendChild c w =
     emit (AppendChild c) (w\<lparr>body := filter (\<lambda>x. fst x \<noteq> fst c) (body w) @ [c]\<rparr>)"

definition removeChild :: "node \<Rightarrow> 'u world \<Rightarrow> (error + unit) \<times> 'u world" where
  "removeChild c w =
     (if fst c \<in> fst ` set (body w)
      then (Inr (), emit (RemoveChild c) (w\<lparr>body := filter (\<lambda>x. fst x \<noteq> fst c) (body w)\<rparr>))
      else (Inl (Thrown ''NotFoundError''), w))"

subsection \<open>embedHtmlAsImage\<close>

text \<open>The content of the \<open>style\<close> element (the template literal, line by line).\<close>

definition style_innerHTML :: string where
  "style_innerHTML = concat (map (\<lambda>l. CHR 0x0A # l)
     [''    body { font-family: sans-serif; }'',
      ''    table { border-collapse: collapse; width: 100%; font-size: 12px; table-layout: fixed; }'',
      ''    th, td { border: 1px solid #ccc; padding: 4px; text-align: left; word-wrap: break-word; }'',
      ''    th { background-color: #f2f2f2; }'',
      ''    p { margin: 0 0 1em 0; line-height: 1.4; }'',
      ''    h1, h2, h3, h4, h5, h6 { margin: 1.2em 0 0.8em 0; }'',
      ''  ''])"

text \<open>
  Lines 11 to 33: the off-screen container, styled and filled, not yet attached.
  \<open>assign\<close> is an assignment to a property of the referenced element.
\<close>

definition assign :: "(element \<Rightarrow> element) \<Rightarrow> node \<Rightarrow> node" where
  "assign upd c = (fst c, upd (snd c))"

definition makeContainer :: "string \<Rightarrow> 'u world \<Rightarrow> node \<times> 'u world" where
  "makeContainer htmlContent w =
     (let (container, w) = createElement ''div'' w;
          container = assign (\<lambda>e. e\<lparr>style_position := ''absolute''\<rparr>) container;
          container = assign (\<lambda>e. e\<lparr>style_left := ''-9999px''\<rparr>) container;
          container = assign (\<lambda>e. e\<lparr>style_width := ''8.5in''\<rparr>) container;
          container = assign (\<lambda>e. e\<lparr>style_padding := ''1in''\<rparr>) container;
          container = assign (\<lambda>e. e\<lparr>style_backgroundColor := ''white''\<rparr>) container;
          container = assign (\<lambda>e. e\<lparr>style_boxSizing := ''border-box''\<rparr>) container;
          container = assign (\<lambda>e. e\<lparr>style_direction := ''ltr''\<rparr>) container;
          (style, w) = createElement ''style'' w;
          style = assign (\<lambda>e. e\<lparr>innerHTML := style_innerHTML\<rparr>) style;
          container = assign (\<lambda>e. e\<lparr>innerHTML :=
            ''<style>'' @ innerHTML (snd style) @ ''</style>'' @ innerHTML e\<rparr>) container;
          container = assign (\<lambda>e. e\<lparr>innerHTML := innerHTML e @ htmlContent\<rparr>) container
      in (container, w))"

text \<open>
  Lines 38 to 65, the \<open>try\<close> block: render the container (the renderer is a function of
  the element, not of its identity; of the options of the call only the scale is kept)
  at scale 2, encode the canvas as
  a JPEG data URL of quality 0.9, fetch its bytes, embed them, add a page and draw the
  image scaled to fit and centred.
\<close>

definition embedHtml_try :: "env \<Rightarrow> node \<Rightarrow> 'u world \<Rightarrow> (error + unit) \<times> 'u world" where
  "embedHtml_try env container w =
     (let w = emit (Html2canvas container) w in
      case html2canvas env (snd container) 2 of
        Inl e \<Rightarrow> (Inl e, w)
      | Inr canvas \<Rightarrow>
          (case toDataURL env canvas ''image/jpeg'' (9 / 10) of
             Inl e \<Rightarrow> (Inl e, w)
           | Inr jpgDataUrl \<Rightarrow>
               (case fetch_arrayBuffer env jpgDataUrl of
                  Inl e \<Rightarrow> (Inl e, w)
                | Inr jpgBytes \<Rightarrow>
                    (case embedJpg env jpgBytes of
                       Inl e \<Rightarrow> (Inl e, w)
                     | Inr jpgImage \<Rightarrow>
                         (let (page, w) = addPage env w;
                              pageDimensions = getSize (getPage page w);
                              imageDimensions = scale jpgImage 1;
                              scale = min (width pageDimensions / width imageDimensions)
                                          (height pageDimensions / height imageDimensions);
                              scaledWidth = width imageDimensions * scale;
                              scaledHeight = height imageDimensions * scale
                          in (Inr (),
                              drawImage page jpgImage
                                ((width pageDimensions - scaledWidth) / 2)
                                ((height pageDimensions - scaledHeight) / 2)
                                scaledWidth scaledHeight w))))))"

text \<open>Lines 66 to 71, the \<open>catch\<close> block: a page with a fixed notice.\<close>

definition embedHtml_catch :: "env \<Rightarrow> error \<Rightarrow> 'u world \<Rightarrow> (error + unit) \<times> 'u world" where
  "embedHtml_catch env error w =
     (let (page, w) = addPage env w
      in drawText env page ''Failed to render Office document''
           50 (getHeight page w / 2) 24 (rgb (8 / 10) (2 / 10) (2 / 10)) w)"

text \<open>
  The whole routine: build the container, attach it, run the \<open>try\<close> block, on a throw the
  \<open>catch\<close> block, and in every case the \<open>finally\<close> block, which removes the container.  An
  error thrown by the \<open>catch\<close> block propagates after the \<open>finally\<close> block; an error thrown
  by the \<open>finally\<close> block replaces the outcome.
\<close>

definition embedHtmlAsImage :: "env \<Rightarrow> string \<Rightarrow> 'u world \<Rightarrow> (error + unit) \<times> 'u world" where
  "embedHtmlAsImage env htmlContent w =
     (let (container, w) = makeContainer htmlContent w;
          w = appendChild container w;
          (r, w) = (case embedHtml_try env container w of
                      (Inl error, w) \<Rightarrow> embedHtml_catch env error w
                    | (Inr u, w) \<Rightarrow> (Inr u, w))
      in case removeChild container w of
           (Inl e, w) \<Rightarrow> (Inl e, w)
         | (Inr u, w) \<Rightarrow> (r, w))"

subsection \<open>mergeFilesToPdf\<close>

text \<open>\<open>onProgress?.(file.name)\<close>: the callback, when one is supplied, is called with the name.\<close>

definition notify :: "(string \<Rightarrow> 'u \<Rightarrow> 'u) option \<Rightarrow> string \<Rightarrow> 'u world \<Rightarrow> 'u world" where
  "notify onProgress fileName w =
     (case onProgress of
        None \<Rightarrow> w
      | Some callback \<Rightarrow> emit (Progress fileName) (w\<lparr>ui := callback fileName (ui w)\<rparr>))"

text \<open>
  Lines 93 to 113, the image branch.  The page is added first; the variable \<open>image\<close> (here \<open>img\<close>) stays unassigned
  for a type that is neither JPEG nor PNG, where the notice is drawn and the loop
  continues.  Nothing catches a rejected \<open>embedJpg\<close> or \<open>embedPng\<close>, or a throwing
  \<open>drawText\<close>.
\<close>

definition image_branch :: "env \<Rightarrow> File \<Rightarrow> 'u world \<Rightarrow> (error + unit) \<times> 'u world" where
  "image_branch env file w =
     (let (page, w) = addPage env w;
          imageBytes = arrayBuffer file
      in case (if type file = ''image/jpeg'' then map_sum id Some (embedJpg env imageBytes)
               else if type file = ''image/png'' then map_sum id Some (embedPng env imageBytes)
               else Inr None) of
           Inl e \<Rightarrow> (Inl e, w)
         | Inr None \<Rightarrow>
             drawText env page (''Unsupported image: '' @ name file)
               50 (getHeight page w / 2) 24 (rgb (8 / 10) (2 / 10) (2 / 10)) w
         | Inr (Some img) \<Rightarrow>
             (let pageDimensions = getSize (getPage page w);
                  imageDimensions = scale img 1;
                  scale = min (width pageDimensions / width imageDimensions)
                              (height pageDimensions / height imageDimensions)
              in (Inr (),
                  drawImage page img
                    ((width pageDimensions - width imageDimensions * scale) / 2)
                    ((height pageDimensions - height imageDimensions * scale) / 2)
                    (width imageDimensions * scale)
                    (height imageDimensions * scale) w)))"

text \<open>
  Lines 116 to 126, the PDF branch.  What the \<open>catch\<close> block throws is not caught; the
  same holds in the Word and Excel branches.
\<close>

definition pdf_branch :: "env \<Rightarrow> File \<Rightarrow> 'u world \<Rightarrow> (error + unit) \<times> 'u world" where
  "pdf_branch env file w =
     (case (let pdfBytes = arrayBuffer file in
            case PDFDocument_load env pdfBytes of
              Inl e \<Rightarrow> (Inl e, w)
            | Inr donorPdfDoc \<Rightarrow>
                (let copiedPageIndices = getPageIndices donorPdfDoc in
                 case copyPages env donorPdfDoc copiedPageIndices of
                   Inl e \<Rightarrow> (Inl e, w)
                 | Inr copiedPages \<Rightarrow> (Inr (), fold addCopiedPage copiedPages w))) of
        (Inr u, w) \<Rightarrow> (Inr u, w)
      | (Inl e, w) \<Rightarrow>
          (let (page, w) = addPage env w
           in drawText env page (''Could not load PDF: '' @ name file)
                50 (getHeight page w / 2) 24 (rgb (8 / 10) (2 / 10) (2 / 10)) w))"

text \<open>Lines 128 to 136, the Word branch.\<close>

definition word_branch :: "env \<Rightarrow> File \<Rightarrow> 'u world \<Rightarrow> (error + unit) \<times> 'u world" where
  "word_branch env file w =
     (case (let arrayBuffer = arrayBuffer file in
            case convertToHtml env arrayBuffer of
              Inl e \<Rightarrow> (Inl e, w)
            | Inr result_value \<Rightarrow> embedHtmlAsImage env result_value w) of
        (Inr u, w) \<Rightarrow> (Inr u, w)
      | (Inl e, w) \<Rightarrow>
          (let (page, w) = addPage env w
           in drawText env page (''Could not load Word file: '' @ name file)
                50 (getHeight page w / 2) 24 (rgb (8 / 10) (2 / 10) (2 / 10)) w))"

text \<open>
  Lines 138 to 150, the Excel branch.  \<open>workbook.SheetNames[0]\<close> is \<open>undefined\<close> for a
  workbook without sheets, and indexing \<open>workbook.Sheets\<close> with it reads the property
  named \<open>undefined\<close>.
\<close>

definition excel_branch :: "env \<Rightarrow> File \<Rightarrow> 'u world \<Rightarrow> (error + unit) \<times> 'u world" where
  "excel_branch env file w =
     (case (let data = arrayBuffer file in
            case XLSX_read env data of
              Inl e \<Rightarrow> (Inl e, w)
            | Inr workbook \<Rightarrow>
                (let sheetName = (case SheetNames workbook of [] \<Rightarrow> ''undefined'' | n # ns \<Rightarrow> n);
                     worksheet = Sheets workbook sheetName
                 in case sheet_to_html env worksheet of
                      Inl e \<Rightarrow> (Inl e, w)
                    | Inr html \<Rightarrow> embedHtmlAsImage env html w)) of
        (Inr u, w) \<Rightarrow> (Inr u, w)
      | (Inl e, w) \<Rightarrow>
          (let (page, w) = addPage env w
           in drawText env page (''Could not load Excel file: '' @ name file)
                50 (getHeight page w / 2) 24 (rgb (8 / 10) (2 / 10) (2 / 10)) w))"

text \<open>Lines 152 and 153, the last branch.\<close>

definition other_branch :: "env \<Rightarrow> File \<Rightarrow> 'u world \<Rightarrow> (error + unit) \<times> 'u world" where
  "other_branch env file w =
     (let (page, w) = addPage env w
      in drawText env page (''Unsupported file: '' @ name file)
           50 (getHeight page w / 2) 24 (rgb (8 / 10) (2 / 10) (2 / 10)) w)"

text \<open>Lines 88 to 154, the body of the loop for one file.\<close>

definition processFile ::
  "env \<Rightarrow> (string \<Rightarrow> 'u \<Rightarrow> 'u) option \<Rightarrow> File \<Rightarrow> 'u world \<Rightarrow> (error + unit) \<times> 'u world" where
  "processFile env onProgress file w =
     (let w = notify onProgress (name file) w;
          fileType = type file;
          fileName = toLowerCase (name file)
      in if startsWith fileType ''image/'' then image_branch env file w
         else if fileType = ''application/pdf'' then pdf_branch env file w
         else if fileType = ''application/vnd.openxmlformats-officedocument.wordprocessingml.document''
                 \<or> endsWith fileName ''.docx'' then word_branch env file w
         else if fileType = ''application/vnd.openxmlformats-officedocument.spreadsheetml.sheet''
                 \<or> endsWith fileName ''.xlsx'' then excel_branch env file w
         else other_branch env file w)"

text \<open>The loop of line 87: a throw in the body leaves the loop and the function.\<close>

fun processFiles ::
  "env \<Rightarrow> (string \<Rightarrow> 'u \<Rightarrow> 'u) option \<Rightarrow> File list \<Rightarrow> 'u world \<Rightarrow> (error + unit) \<times> 'u world" where
  "processFiles env onProgress [] w = (Inr (), w)"
| "processFiles env onProgress (file # files) w =
     (case processFile env onProgress file w of
        (Inl e, w) \<Rightarrow> (Inl e, w)
      | (Inr u, w) \<Rightarrow> processFiles env onProgress files w)"

text \<open>
  Lines 83 to 158.  \<open>PDFDocument.create()\<close> gives an empty document.  \<open>save()\<close>, called
  without options, first adds a page when the document has none, and resolves to the
  byte sequence of the document, which stays in the final state as \<open>pdfDoc\<close>.
\<close>

definition mergeFilesToPdf ::
  "env \<Rightarrow> File list \<Rightarrow> (string \<Rightarrow> 'u \<Rightarrow> 'u) option \<Rightarrow> 'u world \<Rightarrow> (error + bytes) \<times> 'u world" where
  "mergeFilesToPdf env files onProgress w =
     (case PDFDocument_create env of
        Inl e \<Rightarrow> (Inl e, w)
      | Inr u \<Rightarrow>
          (case processFiles env onProgress files (w\<lparr>pdfDoc := []\<rparr>) of
             (Inl e, w) \<Rightarrow> (Inl e, w)
           | (Inr u, w) \<Rightarrow>
               (let w = (if pdfDoc w = [] then snd (addPage env w) else w)
                in (save env (pdfDoc w), w))))"

section \<open>What each part of the pipeline amounts to\<close>

text \<open>
  The definitions of this section are not in the source.  They describe, as functions of
  the libraries and of one file, what the source functions above do; the lemmas of the
  next section prove that they do.
\<close>

subsection \<open>The rasterization routine\<close>

text \<open>The element \<open>makeContainer\<close> builds for a given HTML string.\<close>

definition offscreen :: "string \<Rightarrow> element" where
  "offscreen htmlContent =
     \<lparr>tagName = ''div'', style_position = ''absolute'', style_left = ''-9999px'',
      style_width = ''8.5in'', style_padding = ''1in'', style_backgroundColor = ''white'',
      style_boxSizing = ''border-box'', style_direction = ''ltr'',
      innerHTML = ''<style>'' @ style_innerHTML @ ''</style>'' @ htmlContent\<rparr>"

text \<open>The four fallible steps of the \<open>try\<close> block, from the container to the embedded JPEG.\<close>

definition rasterize :: "env \<Rightarrow> element \<Rightarrow> error + image" where
  "rasterize env e =
     (case html2canvas env e 2 of
        Inl x \<Rightarrow> Inl x
      | Inr canvas \<Rightarrow>
          (case toDataURL env canvas ''image/jpeg'' (9 / 10) of
             Inl x \<Rightarrow> Inl x
           | Inr url \<Rightarrow>
               (case fetch_arrayBuffer env url of
                  Inl x \<Rightarrow> Inl x
                | Inr jpgBytes \<Rightarrow> embedJpg env jpgBytes)))"

text \<open>An image drawn scaled to fit a page of size \<open>pd\<close> and centred on it.\<close>

definition fitted :: "dims \<Rightarrow> image \<Rightarrow> draw" where
  "fitted pd img =
     (let idim = scale img 1;
          s = min (width pd / width idim) (height pd / height idim)
      in DrawImage img ((width pd - width idim * s) / 2) ((height pd - height idim * s) / 2)
           (width idim * s) (height idim * s))"

text \<open>A page of the default size that carries one notice, as every placeholder does.\<close>

definition notice :: "env \<Rightarrow> string \<Rightarrow> page" where
  "notice env text =
     Page (page_size env) None
       [DrawText text 50 (height (page_size env) / 2) 24 (rgb (8 / 10) (2 / 10) (2 / 10))]"

text \<open>
  Drawing a notice on a page just added: the outcome and the page, which stays blank
  when the text cannot be encoded.
\<close>

definition noticeResult :: "env \<Rightarrow> string \<Rightarrow> error + unit" where
  "noticeResult env text =
     (if encodable env text then Inr () else Inl (Thrown ''WinAnsi cannot encode''))"

definition noticePage :: "env \<Rightarrow> string \<Rightarrow> page" where
  "noticePage env text =
     (if encodable env text then notice env text else Page (page_size env) None [])"

text \<open>The one page \<open>embedHtmlAsImage\<close> adds, and its DOM and renderer calls.\<close>

definition htmlPage :: "env \<Rightarrow> string \<Rightarrow> page" where
  "htmlPage env htmlContent =
     (case rasterize env (offscreen htmlContent) of
        Inl e \<Rightarrow> notice env ''Failed to render Office document''
      | Inr img \<Rightarrow> Page (page_size env) None [fitted (page_size env) img])"

definition rasterEvents :: "nat \<Rightarrow> string \<Rightarrow> event list" where
  "rasterEvents n html =
     [AppendChild (n, offscreen html), Html2canvas (n, offscreen html), AddPage,
      RemoveChild (n, offscreen html)]"

subsection \<open>One file\<close>

definition copiedPage :: "dims \<times> content \<Rightarrow> page" where
  "copiedPage p = Page (fst p) (Some (snd p)) []"

text \<open>What the image branch embeds (nothing for a type that is neither JPEG nor PNG).\<close>

definition embedded :: "env \<Rightarrow> File \<Rightarrow> (error + image) option" where
  "embedded env f =
     (if type f = ''image/jpeg'' then Some (embedJpg env (arrayBuffer f))
      else if type f = ''image/png'' then Some (embedPng env (arrayBuffer f))
      else None)"

text \<open>What the \<open>try\<close> block of the PDF branch obtains: the pages copied from the donor.\<close>

definition copied :: "env \<Rightarrow> File \<Rightarrow> error + (dims \<times> content) list" where
  "copied env f =
     (case PDFDocument_load env (arrayBuffer f) of
        Inl e \<Rightarrow> Inl e
      | Inr d \<Rightarrow> copyPages env d (getPageIndices d))"

text \<open>What the \<open>try\<close> block of the Excel branch hands to the rasterization routine.\<close>

definition excelHtml :: "env \<Rightarrow> File \<Rightarrow> error + string" where
  "excelHtml env f =
     (case XLSX_read env (arrayBuffer f) of
        Inl e \<Rightarrow> Inl e
      | Inr wb \<Rightarrow>
          sheet_to_html env (Sheets wb (case SheetNames wb of [] \<Rightarrow> ''undefined'' | n # ns \<Rightarrow> n)))"

text \<open>The branch of the loop body a file is routed to.\<close>

datatype kind = ImageFile | PdfFile | WordFile | ExcelFile | OtherFile

definition kindOf :: "File \<Rightarrow> kind" where
  "kindOf f =
     (if startsWith (type f) ''image/'' then ImageFile
      else if type f = ''application/pdf'' then PdfFile
      else if type f = ''application/vnd.openxmlformats-officedocument.wordprocessingml.document''
              \<or> endsWith (toLowerCase (name f)) ''.docx'' then WordFile
      else if type f = ''application/vnd.openxmlformats-officedocument.spreadsheetml.sheet''
              \<or> endsWith (toLowerCase (name f)) ''.xlsx'' then ExcelFile
      else OtherFile)"

definition branchOf ::
  "kind \<Rightarrow> env \<Rightarrow> File \<Rightarrow> 'u world \<Rightarrow> (error + unit) \<times> 'u world" where
  "branchOf k =
     (case k of ImageFile \<Rightarrow> image_branch | PdfFile \<Rightarrow> pdf_branch | WordFile \<Rightarrow> word_branch
      | ExcelFile \<Rightarrow> excel_branch | OtherFile \<Rightarrow> other_branch)"

text \<open>
  Whether the loop body throws for a file, the pages it appends to the output document,
  the HTML it rasterizes (for a Word or Excel file whose conversion succeeded), and its
  effects after the progress call, for a given identity of the next DOM element.
\<close>

definition fileResult :: "env \<Rightarrow> File \<Rightarrow> error + unit" where
  "fileResult env f =
     (case kindOf f of
        ImageFile \<Rightarrow>
          (case embedded env f of
             None \<Rightarrow> noticeResult env (''Unsupported image: '' @ name f)
           | Some (Inl e) \<Rightarrow> Inl e
           | Some (Inr img) \<Rightarrow> Inr ())
      | PdfFile \<Rightarrow>
          (case copied env f of
             Inl e \<Rightarrow> noticeResult env (''Could not load PDF: '' @ name f)
           | Inr ps \<Rightarrow> Inr ())
      | WordFile \<Rightarrow>
          (case convertToHtml env (arrayBuffer f) of
             Inl e \<Rightarrow> noticeResult env (''Could not load Word file: '' @ name f)
           | Inr html \<Rightarrow> Inr ())
      | ExcelFile \<Rightarrow>
          (case excelHtml env f of
             Inl e \<Rightarrow> noticeResult env (''Could not load Excel file: '' @ name f)
           | Inr html \<Rightarrow> Inr ())
      | OtherFile \<Rightarrow> noticeResult env (''Unsupported file: '' @ name f))"

definition filePages :: "env \<Rightarrow> File \<Rightarrow> page list" where
  "filePages env f =
     (case kindOf f of
        ImageFile \<Rightarrow>
          (case embedded env f of
             None \<Rightarrow> [noticePage env (''Unsupported image: '' @ name f)]
           | Some (Inl e) \<Rightarrow> [Page (page_size env) None []]
           | Some (Inr img) \<Rightarrow> [Page (page_size env) None [fitted (page_size env) img]])
      | PdfFile \<Rightarrow>
          (case copied env f of
             Inl e \<Rightarrow> [noticePage env (''Could not load PDF: '' @ name f)]
           | Inr ps \<Rightarrow> map copiedPage ps)
      | WordFile \<Rightarrow>
          (case convertToHtml env (arrayBuffer f) of
             Inl e \<Rightarrow> [noticePage env (''Could not load Word file: '' @ name f)]
           | Inr html \<Rightarrow> [htmlPage env html])
      | ExcelFile \<Rightarrow>
          (case excelHtml env f of
             Inl e \<Rightarrow> [noticePage env (''Could not load Excel file: '' @ name f)]
           | Inr html \<Rightarrow> [htmlPage env html])
      | OtherFile \<Rightarrow> [noticePage env (''Unsupported file: '' @ name f)])"

definition officeHtml :: "env \<Rightarrow> File \<Rightarrow> string option" where
  "officeHtml env f =
     (case kindOf f of
        WordFile \<Rightarrow> (case convertToHtml env (arrayBuffer f) of Inl e \<Rightarrow> None | Inr html \<Rightarrow> Some html)
      | ExcelFile \<Rightarrow> (case excelHtml env f of Inl e \<Rightarrow> None | Inr html \<Rightarrow> Some html)
      | _ \<Rightarrow> None)"

definition fileEvents :: "env \<Rightarrow> File \<Rightarrow> nat \<Rightarrow> event list" where
  "fileEvents env f n =
     (case officeHtml env f of
        Some html \<Rightarrow> rasterEvents n html
      | None \<Rightarrow> replicate (length (filePages env f)) AddPage)"

definition progressEvents :: "(string \<Rightarrow> 'u \<Rightarrow> 'u) option \<Rightarrow> File \<Rightarrow> event list" where
  "progressEvents cb f = (case cb of None \<Rightarrow> [] | Some g \<Rightarrow> [Progress (name f)])"

subsection \<open>The loop\<close>

text \<open>
  The files the loop reaches (up to and including the first one whose body throws), and
  the outcome of the loop.
\<close>

fun reached :: "env \<Rightarrow> File list \<Rightarrow> File list" where
  "reached env [] = []"
| "reached env (f # fs) = f # (case fileResult env f of Inl e \<Rightarrow> [] | Inr u \<Rightarrow> reached env fs)"

fun filesResult :: "env \<Rightarrow> File list \<Rightarrow> error + unit" where
  "filesResult env [] = Inr ()"
| "filesResult env (f # fs) = (case fileResult env f of Inl e \<Rightarrow> Inl e | Inr u \<Rightarrow> filesResult env fs)"

text \<open>The pages of the document after \<open>save()\<close>, which adds a page to an empty document.\<close>

definition savedPages :: "env \<Rightarrow> page list \<Rightarrow> page list" where
  "savedPages env ps = (if ps = [] then [Page (page_size env) None []] else ps)"

section \<open>The properties the specification states\<close>

text \<open>
  The contract of PDFLib's \<open>copyPages(donor, indices)\<close>: when it resolves, it resolves to
  the donor's pages at the given indices, in the order of the indices.
\<close>

definition copyPages_spec :: "env \<Rightarrow> bool" where
  "copyPages_spec env =
     (\<forall>d is ps. copyPages env d is = Inr ps \<longrightarrow> ps = map ((!) d) is)"

text \<open>
  A successfully parsed PDF file: declared \<open>application/pdf\<close>, loaded, and its pages copied.
  The value is the source document.
\<close>

definition sourcePdf :: "env \<Rightarrow> File \<Rightarrow> donor option" where
  "sourcePdf env f =
     (if type f = ''application/pdf'' then
        (case PDFDocument_load env (arrayBuffer f) of
           Inl e \<Rightarrow> None
         | Inr d \<Rightarrow> (case copyPages env d (getPageIndices d) of Inl e \<Rightarrow> None | Inr ps \<Rightarrow> Some d))
      else None)"

text \<open>The page count the specification gives a file: that of the source PDF, or 1.\<close>

definition expectedPageCount :: "env \<Rightarrow> File \<Rightarrow> nat" where
  "expectedPageCount env f = (case sourcePdf env f of Some d \<Rightarrow> length d | None \<Rightarrow> 1)"

text \<open>A notice names a file when the file's name occurs in its text.\<close>

definition namesFile :: "string \<Rightarrow> File \<Rightarrow> bool" where
  "namesFile text f = sublist (name f) text"

text \<open>
  The failures for which the code substitutes a placeholder page: an unsupported kind
  (an image type that is neither JPEG nor PNG, or a file no branch accepts), a source
  document that cannot be loaded or copied, a conversion that fails, and a rasterization
  that fails.  A JPEG or PNG file whose embedding is rejected is not among them.
\<close>

datatype failure =
    UnsupportedImage | UnparseablePdf | WordConversion | ExcelConversion | UnsupportedFile
  | Rasterization

definition failureOf :: "env \<Rightarrow> File \<Rightarrow> failure option" where
  "failureOf env f =
     (case kindOf f of
        ImageFile \<Rightarrow> (case embedded env f of None \<Rightarrow> Some UnsupportedImage | Some r \<Rightarrow> None)
      | PdfFile \<Rightarrow> (case copied env f of Inl e \<Rightarrow> Some UnparseablePdf | Inr ps \<Rightarrow> None)
      | WordFile \<Rightarrow>
          (case convertToHtml env (arrayBuffer f) of
             Inl e \<Rightarrow> Some WordConversion
           | Inr html \<Rightarrow>
               (case rasterize env (offscreen html) of
                  Inl e \<Rightarrow> Some Rasterization
                | Inr img \<Rightarrow> None))
      | ExcelFile \<Rightarrow>
          (case excelHtml env f of
             Inl e \<Rightarrow> Some ExcelConversion
           | Inr html \<Rightarrow>
               (case rasterize env (offscreen html) of
                  Inl e \<Rightarrow> Some Rasterization
                | Inr img \<Rightarrow> None))
      | OtherFile \<Rightarrow> Some UnsupportedFile)"

text \<open>The notice of the placeholder, by failure.\<close>

definition noticeOf :: "failure \<Rightarrow> File \<Rightarrow> string" where
  "noticeOf k f =
     (case k of
        UnsupportedImage \<Rightarrow> ''Unsupported image: '' @ name f
      | UnparseablePdf \<Rightarrow> ''Could not load PDF: '' @ name f
      | WordConversion \<Rightarrow> ''Could not load Word file: '' @ name f
      | ExcelConversion \<Rightarrow> ''Could not load Excel file: '' @ name f
      | UnsupportedFile \<Rightarrow> ''Unsupported file: '' @ name f
      | Rasterization \<Rightarrow> ''Failed to render Office document'')"

text \<open>The pages a step adds to the output document of the state \<open>w\<close>.\<close>

definition addedPages :: "'u world \<Rightarrow> 'u world \<Rightarrow> page list" where
  "addedPages w w' = drop (length (pdfDoc w)) (pdfDoc w')"

section \<open>Concrete libraries and files\<close>

text \<open>
  Libraries that reject an empty byte sequence and accept every other one: an image is
  500 by 500, a PDF has one letter-size page per byte, a page created by \<open>addPage()\<close> is A4,
  and the standard font encodes the printable ASCII characters only.
\<close>

definition demo_env :: env where
  "demo_env =
     \<lparr>PDFDocument_create = Inr (),
      page_size = Dims (59528 / 100) (84189 / 100),
      embedJpg = (\<lambda>b. if b = [] then Inl (Thrown ''SOI not found in JPEG'') else Inr (Image 500 500)),
      embedPng = (\<lambda>b. if b = [] then Inl (Thrown ''not a PNG'') else Inr (Image 500 500)),
      PDFDocument_load =
        (\<lambda>b. if b = [] then Inl (Thrown ''No PDF header found'')
             else Inr (map (\<lambda>n. (Dims 612 792, [n])) b)),
      copyPages = (\<lambda>d is. Inr (map ((!) d) is)),
      save = (\<lambda>ps. Inr (map (\<lambda>p. length (drawn p)) ps)),
      convertToHtml = (\<lambda>b. if b = [] then Inl (Thrown ''not a zip file'') else Inr ''<p>text</p>''),
      XLSX_read =
        (\<lambda>b. if b = [] then Inl (Thrown ''not a zip file'')
             else Inr \<lparr>SheetNames = [''Sheet1''], Sheets = [''Sheet1'' \<mapsto> [[''a'']]]\<rparr>),
      sheet_to_html =
        (\<lambda>s. case s of None \<Rightarrow> Inl (Thrown ''no sheet'') | Some cells \<Rightarrow> Inr ''<table></table>''),
      html2canvas = (\<lambda>e s. Inr (Canvas 1632 2112)),
      toDataURL = (\<lambda>c t q. Inr ''data:image/jpeg;base64,''),
      fetch_arrayBuffer = (\<lambda>u. Inr [255, 216]),
      canEncode = (\<lambda>c. False)\<rparr>"

text \<open>The same libraries with a renderer that always fails.\<close>

definition norender_env :: env where
  "norender_env = demo_env\<lparr>html2canvas := (\<lambda>e s. Inl (Thrown ''Unable to render''))\<rparr>"

text \<open>The same libraries with a loader for which every PDF has no page.\<close>

definition nopage_env :: env where
  "nopage_env = demo_env\<lparr>PDFDocument_load := (\<lambda>b. Inr [])\<rparr>"

definition start :: "nat list world" where
  "start = \<lparr>pdfDoc = [], body = [], nodes = 0, ui = [], trace = []\<rparr>"

text \<open>A progress callback that records the length of each name it is given.\<close>

definition record_length :: "string \<Rightarrow> nat list \<Rightarrow> nat list" where
  "record_length n u = u @ [length n]"

definition bad_jpg :: File where
  "bad_jpg = \<lparr>name = ''photo.jpg'', type = ''image/jpeg'', arrayBuffer = []\<rparr>"

definition a_png :: File where
  "a_png = \<lparr>name = ''a.png'', type = ''image/png'', arrayBuffer = [137, 80]\<rparr>"

definition b_pdf :: File where
  "b_pdf = \<lparr>name = ''b.pdf'', type = ''application/pdf'', arrayBuffer = [1, 2]\<rparr>"

definition bad_pdf :: File where
  "bad_pdf = \<lparr>name = ''bad.pdf'', type = ''application/pdf'', arrayBuffer = []\<rparr>"

definition anim_gif :: File where
  "anim_gif = \<lparr>name = ''anim.gif'', type = ''image/gif'', arrayBuffer = [71, 73]\<rparr>"

definition report_docx :: File where
  "report_docx =
     \<lparr>name = ''report.docx'',
      type = ''application/vnd.openxmlformats-officedocument.wordprocessingml.document'',
      arrayBuffer = [80, 75]\<rparr>"

definition upper_docx :: File where
  "upper_docx = \<lparr>name = ''REPORT.DOCX'', type = [], arrayBuffer = [80, 75]\<rparr>"

text \<open>
  A truncated PDF and a GIF image whose names begin with three Arabic letters (in UTF-8),
  which the standard font cannot encode.
\<close>

definition arabic_pdf :: File where
  "arabic_pdf =
     \<lparr>name = [CHR 0xD9, CHR 0x85, CHR 0xD9, CHR 0x84, CHR 0xD9, CHR 0x81] @ ''.pdf'',
      type = ''application/pdf'', arrayBuffer = []\<rparr>"

definition arabic_gif :: File where
  "arabic_gif =
     \<lparr>name = [CHR 0xD9, CHR 0x85, CHR 0xD9, CHR 0x84, CHR 0xD9, CHR 0x81] @ ''.gif'',
      type = ''image/gif'', arrayBuffer = [71, 73]\<rparr>"

text \<open>A state in which the body of the page already has a child.\<close>

definition busy :: "nat list world" where
  "busy = start\<lparr>body := [(0, \<lparr>tagName = ''div'', style_position = [], style_left = [],
      style_width = [], style_padding = [], style_backgroundColor = [], style_boxSizing = [],
      style_direction = [], innerHTML = ''app''\<rparr>)], nodes := 1\<rparr>"

text \<open>Files whose name and declared type disagree, and an upper-case spreadsheet name.\<close>

definition scan_docx :: File where
  "scan_docx = \<lparr>name = ''scan.docx'', type = ''image/png'', arrayBuffer = [137, 80]\<rparr>"

definition form_xlsx :: File where
  "form_xlsx = \<lparr>name = ''form.xlsx'', type = ''application/pdf'', arrayBuffer = [1]\<rparr>"

definition upper_xlsx :: File where
  "upper_xlsx = \<lparr>name = ''DATA.XLSX'', type = [], arrayBuffer = [80, 75]\<rparr>"

section \<open>The source functions do what the summaries say\<close>

lemma makeContainer_eq:
  "makeContainer htmlContent w = ((nodes w, offscreen htmlContent), w\<lparr>nodes := nodes w + 2\<rparr>)"
  by (simp add: makeContainer_def createElement_def assign_def offscreen_def Let_def)

lemma embedHtml_try_eq:
  "embedHtml_try env c w =
     (case rasterize env (snd c) of
        Inl e \<Rightarrow> (Inl e, w\<lparr>trace := trace w @ [Html2canvas c]\<rparr>)
      | Inr img \<Rightarrow>
          (Inr (), w\<lparr>pdfDoc := pdfDoc w @ [Page (page_size env) None [fitted (page_size env) img]],
                     trace := trace w @ [Html2canvas c, AddPage]\<rparr>))"
  by (simp add: embedHtml_try_def rasterize_def fitted_def addPage_def emit_def drawImage_def
      drawOn_def getPage_def Let_def split: sum.splits)

lemma encodable_printable: "list_all printable text \<Longrightarrow> encodable env text"
  by (simp add: encodable_def list_all_iff)

lemma render_notice_printable: "list_all printable ''Failed to render Office document''"
  by code_simp

lemma render_notice_encodable: "encodable env ''Failed to render Office document''"
  by (rule encodable_printable [OF render_notice_printable])

lemma embedHtml_catch_eq:
  "embedHtml_catch env e w =
     (Inr (), w\<lparr>pdfDoc := pdfDoc w @ [notice env ''Failed to render Office document''],
                trace := trace w @ [AddPage]\<rparr>)"
  by (simp add: embedHtml_catch_def notice_def addPage_def emit_def drawText_def
      drawOn_def getPage_def getHeight_def Let_def render_notice_encodable)

lemma embedHtmlAsImage_eq:
  "embedHtmlAsImage env htmlContent w =
     (Inr (),
      w\<lparr>pdfDoc := pdfDoc w @ [htmlPage env htmlContent],
        body := filter (\<lambda>x. fst x \<noteq> nodes w) (body w),
        nodes := nodes w + 2,
        trace := trace w @ [AppendChild (nodes w, offscreen htmlContent),
                           Html2canvas (nodes w, offscreen htmlContent), AddPage,
                           RemoveChild (nodes w, offscreen htmlContent)]\<rparr>)"
  by (simp add: embedHtmlAsImage_def makeContainer_eq embedHtml_try_eq embedHtml_catch_eq
      appendChild_def removeChild_def emit_def htmlPage_def split: sum.splits)

lemma fold_addCopiedPage:
  "fold addCopiedPage ps w =
     w\<lparr>pdfDoc := pdfDoc w @ map copiedPage ps, trace := trace w @ replicate (length ps) AddPage\<rparr>"
proof (induction ps arbitrary: w)
  case Nil
  show ?case by simp
next
  case (Cons p ps)
  have "fold addCopiedPage (p # ps) w = fold addCopiedPage ps (addCopiedPage p w)"
    by simp
  also have "\<dots> = (addCopiedPage p w)\<lparr>pdfDoc := pdfDoc (addCopiedPage p w) @ map copiedPage ps,
      trace := trace (addCopiedPage p w) @ replicate (length ps) AddPage\<rparr>"
    by (rule Cons.IH)
  also have "\<dots> = w\<lparr>pdfDoc := pdfDoc w @ map copiedPage (p # ps),
      trace := trace w @ replicate (length (p # ps)) AddPage\<rparr>"
    by (simp add: addCopiedPage_def emit_def copiedPage_def)
  finally show ?case .
qed

lemma image_branch_eq:
  "image_branch env f w =
     (case embedded env f of
        None \<Rightarrow>
          (noticeResult env (''Unsupported image: '' @ name f),
           w\<lparr>pdfDoc := pdfDoc w @ [noticePage env (''Unsupported image: '' @ name f)],
             trace := trace w @ [AddPage]\<rparr>)
      | Some (Inl e) \<Rightarrow>
          (Inl e, w\<lparr>pdfDoc := pdfDoc w @ [Page (page_size env) None []],
                     trace := trace w @ [AddPage]\<rparr>)
      | Some (Inr img) \<Rightarrow>
          (Inr (), w\<lparr>pdfDoc := pdfDoc w @ [Page (page_size env) None [fitted (page_size env) img]],
                     trace := trace w @ [AddPage]\<rparr>))"
  by (simp add: image_branch_def embedded_def noticeResult_def noticePage_def notice_def
      fitted_def addPage_def emit_def drawText_def drawImage_def drawOn_def getPage_def
      getHeight_def Let_def split: sum.splits)

lemma pdf_branch_eq:
  "pdf_branch env f w =
     (case copied env f of
        Inl e \<Rightarrow>
          (noticeResult env (''Could not load PDF: '' @ name f),
           w\<lparr>pdfDoc := pdfDoc w @ [noticePage env (''Could not load PDF: '' @ name f)],
             trace := trace w @ [AddPage]\<rparr>)
      | Inr ps \<Rightarrow>
          (Inr (), w\<lparr>pdfDoc := pdfDoc w @ map copiedPage ps,
                     trace := trace w @ replicate (length ps) AddPage\<rparr>))"
  by (simp add: pdf_branch_def copied_def fold_addCopiedPage Let_def
      noticeResult_def noticePage_def notice_def addPage_def emit_def drawText_def drawOn_def getPage_def getHeight_def
      split: sum.splits)

lemma word_branch_eq:
  "word_branch env f w =
     (case convertToHtml env (arrayBuffer f) of
        Inl e \<Rightarrow>
          (noticeResult env (''Could not load Word file: '' @ name f),
           w\<lparr>pdfDoc := pdfDoc w @ [noticePage env (''Could not load Word file: '' @ name f)],
             trace := trace w @ [AddPage]\<rparr>)
      | Inr html \<Rightarrow>
          (Inr (), w\<lparr>pdfDoc := pdfDoc w @ [htmlPage env html],
                     body := filter (\<lambda>x. fst x \<noteq> nodes w) (body w),
                     nodes := nodes w + 2,
                     trace := trace w @ rasterEvents (nodes w) html\<rparr>))"
  by (simp add: word_branch_def embedHtmlAsImage_eq rasterEvents_def Let_def
      noticeResult_def noticePage_def notice_def addPage_def emit_def drawText_def drawOn_def getPage_def getHeight_def
      split: sum.splits)

lemma excel_branch_eq:
  "excel_branch env f w =
     (case excelHtml env f of
        Inl e \<Rightarrow>
          (noticeResult env (''Could not load Excel file: '' @ name f),
           w\<lparr>pdfDoc := pdfDoc w @ [noticePage env (''Could not load Excel file: '' @ name f)],
             trace := trace w @ [AddPage]\<rparr>)
      | Inr html \<Rightarrow>
          (Inr (), w\<lparr>pdfDoc := pdfDoc w @ [htmlPage env html],
                     body := filter (\<lambda>x. fst x \<noteq> nodes w) (body w),
                     nodes := nodes w + 2,
                     trace := trace w @ rasterEvents (nodes w) html\<rparr>))"
  by (simp add: excel_branch_def excelHtml_def embedHtmlAsImage_eq rasterEvents_def Let_def
      noticeResult_def noticePage_def notice_def addPage_def emit_def drawText_def drawOn_def getPage_def getHeight_def
      split: sum.splits)

lemma other_branch_eq:
  "other_branch env f w =
     (noticeResult env (''Unsupported file: '' @ name f),
      w\<lparr>pdfDoc := pdfDoc w @ [noticePage env (''Unsupported file: '' @ name f)],
        trace := trace w @ [AddPage]\<rparr>)"
  by (simp add: other_branch_def Let_def
      noticeResult_def noticePage_def notice_def addPage_def emit_def drawText_def drawOn_def getPage_def getHeight_def)

lemma processFile_kind:
  "processFile env cb f w = branchOf (kindOf f) env f (notify cb (name f) w)"
  by (simp add: processFile_def kindOf_def branchOf_def Let_def)

lemma notify_eq:
  "notify cb n w =
     w\<lparr>ui := (case cb of None \<Rightarrow> ui w | Some g \<Rightarrow> g n (ui w)),
       trace := trace w @ (case cb of None \<Rightarrow> [] | Some g \<Rightarrow> [Progress n])\<rparr>"
  by (simp add: notify_def emit_def split: option.splits)

lemmas branch_eqs = image_branch_eq pdf_branch_eq word_branch_eq excel_branch_eq other_branch_eq

lemma processFile_fst: "fst (processFile env cb f w) = fileResult env f"
  by (simp add: processFile_kind branchOf_def fileResult_def branch_eqs
      split: kind.splits option.splits sum.splits)

lemma processFile_pdfDoc: "pdfDoc (snd (processFile env cb f w)) = pdfDoc w @ filePages env f"
  by (simp add: processFile_kind branchOf_def filePages_def branch_eqs notify_eq
      split: kind.splits option.splits sum.splits)

lemma processFile_ui:
  "ui (snd (processFile env cb f w)) = (case cb of None \<Rightarrow> ui w | Some g \<Rightarrow> g (name f) (ui w))"
  by (simp add: processFile_kind branchOf_def branch_eqs notify_eq
      split: kind.splits option.splits sum.splits)

lemma processFile_trace:
  "trace (snd (processFile env cb f w)) =
     trace w @ progressEvents cb f @ fileEvents env f (nodes w)"
  by (simp add: processFile_kind branchOf_def filePages_def fileEvents_def officeHtml_def
      progressEvents_def branch_eqs notify_eq
      split: kind.splits option.splits sum.splits)

lemma processFile_body:
  "body (snd (processFile env cb f w)) =
     (case officeHtml env f of None \<Rightarrow> body w
      | Some html \<Rightarrow> filter (\<lambda>x. fst x \<noteq> nodes w) (body w))"
  by (simp add: processFile_kind branchOf_def officeHtml_def branch_eqs notify_eq
      split: kind.splits option.splits sum.splits)

lemma processFile_nodes:
  "nodes (snd (processFile env cb f w)) =
     (case officeHtml env f of None \<Rightarrow> nodes w | Some html \<Rightarrow> nodes w + 2)"
  by (simp add: processFile_kind branchOf_def officeHtml_def branch_eqs notify_eq
      split: kind.splits option.splits sum.splits)

lemma processFile_cases:
  obtains w' where "processFile env cb f w = (fileResult env f, w')"
    "pdfDoc w' = pdfDoc w @ filePages env f"
    "ui w' = (case cb of None \<Rightarrow> ui w | Some g \<Rightarrow> g (name f) (ui w))"
    "trace w' = trace w @ progressEvents cb f @ fileEvents env f (nodes w)"
proof -
  obtain r w' where rw: "processFile env cb f w = (r, w')"
    by (cases "processFile env cb f w")
  have "r = fileResult env f"
    using processFile_fst [of env cb f w] rw by simp
  moreover have "pdfDoc w' = pdfDoc w @ filePages env f"
    using processFile_pdfDoc [of env cb f w] rw by simp
  moreover have "ui w' = (case cb of None \<Rightarrow> ui w | Some g \<Rightarrow> g (name f) (ui w))"
    using processFile_ui [of env cb f w] rw by simp
  moreover have "trace w' = trace w @ progressEvents cb f @ fileEvents env f (nodes w)"
    using processFile_trace [of env cb f w] rw by simp
  ultimately show thesis
    using rw that by blast
qed

lemma processFiles_fst: "fst (processFiles env cb fs w) = filesResult env fs"
proof (induction fs arbitrary: w)
  case Nil
  show ?case by simp
next
  case (Cons f fs)
  obtain w' where "processFile env cb f w = (fileResult env f, w')"
    by (rule processFile_cases)
  then show ?case
    using Cons.IH [of w'] by (simp split: sum.splits)
qed

lemma processFiles_pdfDoc:
  "pdfDoc (snd (processFiles env cb fs w)) = pdfDoc w @ concat (map (filePages env) (reached env fs))"
proof (induction fs arbitrary: w)
  case Nil
  show ?case by simp
next
  case (Cons f fs)
  obtain w' where "processFile env cb f w = (fileResult env f, w')"
    and "pdfDoc w' = pdfDoc w @ filePages env f"
    by (rule processFile_cases)
  then show ?case
    using Cons.IH [of w'] by (simp split: sum.splits)
qed

lemma processFiles_ui:
  "ui (snd (processFiles env (Some g) fs w)) = fold (\<lambda>f. g (name f)) (reached env fs) (ui w)"
proof (induction fs arbitrary: w)
  case Nil
  show ?case by simp
next
  case (Cons f fs)
  obtain w' where "processFile env (Some g) f w = (fileResult env f, w')"
    and "ui w' = (case Some g of None \<Rightarrow> ui w | Some g \<Rightarrow> g (name f) (ui w))"
    by (rule processFile_cases)
  then show ?case
    using Cons.IH [of w'] by (simp split: sum.splits)
qed

lemma reached_all: "filesResult env fs = Inr u \<Longrightarrow> reached env fs = fs"
  by (induction fs) (auto split: sum.splits)

lemma fileEvents_no_Progress: "Progress n \<notin> set (fileEvents env f k)"
  by (simp add: fileEvents_def rasterEvents_def split: option.splits)

lemma processFiles_trace:
  "\<exists>works. length works = length (reached env fs) \<and>
     trace (snd (processFiles env cb fs w)) =
       trace w @ concat (map (\<lambda>(f, work). progressEvents cb f @ work) (zip (reached env fs) works)) \<and>
     (\<forall>work \<in> set works. \<forall>n. Progress n \<notin> set work)"
proof (induction fs arbitrary: w)
  case Nil
  show ?case by simp
next
  case (Cons f fs)
  obtain w' where pf: "processFile env cb f w = (fileResult env f, w')"
    and tr: "trace w' = trace w @ progressEvents cb f @ fileEvents env f (nodes w)"
    by (rule processFile_cases)
  show ?case
  proof (cases "fileResult env f")
    case (Inl e)
    have "length [fileEvents env f (nodes w)] = length (reached env (f # fs))"
      using Inl by simp
    moreover have "trace (snd (processFiles env cb (f # fs) w)) =
       trace w @ concat (map (\<lambda>(f, work). progressEvents cb f @ work)
         (zip (reached env (f # fs)) [fileEvents env f (nodes w)]))"
      using Inl pf tr by simp
    moreover have "\<forall>work \<in> set [fileEvents env f (nodes w)]. \<forall>n. Progress n \<notin> set work"
      by (simp add: fileEvents_no_Progress)
    ultimately show ?thesis by blast
  next
    case (Inr u)
    obtain works where len: "length works = length (reached env fs)"
      and t: "trace (snd (processFiles env cb fs w')) =
        trace w' @ concat (map (\<lambda>(f, work). progressEvents cb f @ work) (zip (reached env fs) works))"
      and np: "\<forall>work \<in> set works. \<forall>n. Progress n \<notin> set work"
      using Cons.IH [of w'] by blast
    have "length (fileEvents env f (nodes w) # works) = length (reached env (f # fs))"
      using Inr len by simp
    moreover have "trace (snd (processFiles env cb (f # fs) w)) =
       trace w @ concat (map (\<lambda>(f, work). progressEvents cb f @ work)
         (zip (reached env (f # fs)) (fileEvents env f (nodes w) # works)))"
      using Inr pf tr t by simp
    moreover have "\<forall>work \<in> set (fileEvents env f (nodes w) # works). \<forall>n. Progress n \<notin> set work"
      using np by (simp add: fileEvents_no_Progress)
    ultimately show ?thesis by blast
  qed
qed

lemma kindOf_pdf: "kindOf f = PdfFile \<longleftrightarrow> type f = ''application/pdf''"
  by (auto simp add: kindOf_def startsWith_def split: if_splits)

lemma kindOf_image: "kindOf f = ImageFile \<longleftrightarrow> startsWith (type f) ''image/''"
  by (simp add: kindOf_def)

lemma sourcePdf_copied:
  assumes "copyPages_spec env"
  shows "sourcePdf env f = (if kindOf f = PdfFile then (case copied env f of Inl e \<Rightarrow> None | Inr ps \<Rightarrow> Some ps) else None)"
proof -
  have "ps = d" if "copyPages env d (getPageIndices d) = Inr ps" for d ps
  proof -
    have "ps = map ((!) d) [0 ..< length d]"
      using assms that by (simp add: copyPages_spec_def getPageIndices_def)
    then show ?thesis by (simp add: map_nth)
  qed
  then show ?thesis
    by (auto simp add: sourcePdf_def kindOf_pdf copied_def split: sum.splits)
qed

lemma filePages_source:
  assumes "copyPages_spec env"
  shows "case sourcePdf env f of
           Some d \<Rightarrow> filePages env f = map copiedPage d
         | None \<Rightarrow> length (filePages env f) = 1"
  by (simp add: sourcePdf_copied [OF assms] filePages_def
      split: kind.splits sum.splits option.splits)

lemma filePages_length:
  assumes "copyPages_spec env"
  shows "length (filePages env f) = expectedPageCount env f"
  using filePages_source [OF assms, of f]
  by (simp add: expectedPageCount_def split: option.splits)

lemma filesResult_Inr_iff:
  "filesResult env fs = Inr () \<longleftrightarrow> (\<forall>f \<in> set fs. fileResult env f = Inr ())"
  by (induction fs) (auto split: sum.splits)

lemma mergeFilesToPdf_returns:
  assumes "mergeFilesToPdf env files cb w = (Inr out, w')"
  shows "PDFDocument_create env = Inr ()"
    and "filesResult env files = Inr ()"
    and "pdfDoc w' = savedPages env (concat (map (filePages env) files))"
    and "save env (pdfDoc w') = Inr out"
    and "ui w' = ui (snd (processFiles env cb files (w\<lparr>pdfDoc := []\<rparr>)))"
proof -
  obtain r w1 where p: "processFiles env cb files (w\<lparr>pdfDoc := []\<rparr>) = (r, w1)"
    by (cases "processFiles env cb files (w\<lparr>pdfDoc := []\<rparr>)")
  have r: "r = filesResult env files"
    using processFiles_fst [of env cb files "w\<lparr>pdfDoc := []\<rparr>"] p by simp
  show c: "PDFDocument_create env = Inr ()"
    using assms by (simp add: mergeFilesToPdf_def split: sum.splits)
  show f: "filesResult env files = Inr ()"
    using assms p r by (simp add: mergeFilesToPdf_def split: sum.splits)
  have d: "pdfDoc w1 = concat (map (filePages env) files)"
    using processFiles_pdfDoc [of env cb files "w\<lparr>pdfDoc := []\<rparr>"] p reached_all [OF f] by simp
  have w': "w' = (if pdfDoc w1 = [] then snd (addPage env w1) else w1)"
    using assms p r f c by (simp add: mergeFilesToPdf_def Let_def split: sum.splits if_splits)
  show "pdfDoc w' = savedPages env (concat (map (filePages env) files))"
    using d by (simp add: w' savedPages_def addPage_def emit_def)
  show "save env (pdfDoc w') = Inr out"
    using assms p r f c by (simp add: mergeFilesToPdf_def Let_def w' split: sum.splits if_splits)
  show "ui w' = ui (snd (processFiles env cb files (w\<lparr>pdfDoc := []\<rparr>)))"
    using p by (simp add: w' addPage_def emit_def)
qed

lemma demo_copyPages_spec: "copyPages_spec demo_env"
  by (simp add: copyPages_spec_def demo_env_def)

lemmas eval_simps = mergeFilesToPdf_def processFile_kind kindOf_def branchOf_def branch_eqs
  embedded_def copied_def excelHtml_def notify_eq startsWith_def endsWith_def
  getPageIndices_def copiedPage_def notice_def fitted_def noticeResult_def noticePage_def
  encodable_def printable_def addPage_def emit_def

lemma toLowerCase_suffix:
  assumes "endsWith n ext"
  shows "endsWith (toLowerCase n) (toLowerCase ext)"
proof -
  obtain p where "n = p @ ext"
    using assms by (auto simp add: endsWith_def suffix_def)
  then have "toLowerCase n = toLowerCase p @ toLowerCase ext"
    by (simp add: toLowerCase_def)
  then show ?thesis
    by (simp add: endsWith_def suffix_def)
qed

lemma lower_DOCX: "toLowerCase ''.DOCX'' = ''.docx''"
  by code_simp

lemma lower_XLSX: "toLowerCase ''.XLSX'' = ''.xlsx''"
  by code_simp

lemma xlsx_not_docx: "endsWith n ''.xlsx'' \<Longrightarrow> \<not> endsWith n ''.docx''"
  by (auto simp add: endsWith_def suffix_def)

lemma processFile_addedPages:
  "addedPages w (snd (processFile env cb f w)) = filePages env f"
  by (simp add: addedPages_def processFile_pdfDoc)

lemma embedHtmlAsImage_addedPages:
  "addedPages w (snd (embedHtmlAsImage env htmlContent w)) = [htmlPage env htmlContent]"
  by (simp add: addedPages_def embedHtmlAsImage_eq)

text \<open>
  When \<open>mergeFilesToPdf\<close> returns: the document can be created, no file makes the loop body
  throw, and the document can be saved.
\<close>

lemma mergeFilesToPdf_returns_iff:
  "(\<exists>out w'. mergeFilesToPdf env files cb w = (Inr out, w')) \<longleftrightarrow>
     PDFDocument_create env = Inr () \<and> (\<forall>f \<in> set files. fileResult env f = Inr ()) \<and>
     (\<exists>out. save env (savedPages env (concat (map (filePages env) files))) = Inr out)"
proof
  assume "\<exists>out w'. mergeFilesToPdf env files cb w = (Inr out, w')"
  then obtain out w' where m: "mergeFilesToPdf env files cb w = (Inr out, w')"
    by blast
  show "PDFDocument_create env = Inr () \<and> (\<forall>f \<in> set files. fileResult env f = Inr ()) \<and>
     (\<exists>out. save env (savedPages env (concat (map (filePages env) files))) = Inr out)"
    using mergeFilesToPdf_returns [OF m] by (auto simp add: filesResult_Inr_iff)
next
  assume a: "PDFDocument_create env = Inr () \<and> (\<forall>f \<in> set files. fileResult env f = Inr ()) \<and>
     (\<exists>out. save env (savedPages env (concat (map (filePages env) files))) = Inr out)"
  obtain r w1 where p: "processFiles env cb files (w\<lparr>pdfDoc := []\<rparr>) = (r, w1)"
    by (cases "processFiles env cb files (w\<lparr>pdfDoc := []\<rparr>)")
  have f: "filesResult env files = Inr ()"
    using a by (simp add: filesResult_Inr_iff)
  have r: "r = Inr ()"
    using processFiles_fst [of env cb files "w\<lparr>pdfDoc := []\<rparr>"] p f by simp
  have d: "pdfDoc w1 = concat (map (filePages env) files)"
    using processFiles_pdfDoc [of env cb files "w\<lparr>pdfDoc := []\<rparr>"] p reached_all [OF f] by simp
  obtain out where s: "save env (savedPages env (pdfDoc w1)) = Inr out"
    using a d by auto
  define w2 where "w2 = (if pdfDoc w1 = [] then snd (addPage env w1) else w1)"
  have "pdfDoc w2 = savedPages env (pdfDoc w1)"
    by (simp add: w2_def savedPages_def addPage_def emit_def)
  moreover have "mergeFilesToPdf env files cb w = (save env (pdfDoc w2), w2)"
    using a p r by (simp add: mergeFilesToPdf_def Let_def w2_def)
  ultimately show "\<exists>out w'. mergeFilesToPdf env files cb w = (Inr out, w')"
    using s by simp
qed

text \<open>
  A file of a run that returns did not make the loop body throw; when a placeholder is
  substituted for it, the notice could be drawn.
\<close>

lemma returned_fileResult:
  assumes "mergeFilesToPdf env files cb w = (Inr out, w')" and "f \<in> set files"
  shows "fileResult env f = Inr ()"
  using mergeFilesToPdf_returns(2) [OF assms(1)] assms(2) by (simp add: filesResult_Inr_iff)

lemma returned_filePages:
  assumes "mergeFilesToPdf env files cb w = (Inr out, w')" and "f \<in> set files"
  shows "set (filePages env f) \<subseteq> set (pdfDoc w')"
  using mergeFilesToPdf_returns(3) [OF assms(1)] assms(2)
  by (auto simp add: savedPages_def)

lemma failure_filePages:
  assumes "failureOf env f = Some k" and "fileResult env f = Inr ()"
  shows "filePages env f = [notice env (noticeOf k f)]"
  using assms
  by (auto simp add: failureOf_def fileResult_def filePages_def noticeOf_def noticeResult_def
      noticePage_def htmlPage_def split: kind.splits option.splits sum.splits if_splits)

lemma noticeOf_names:
  assumes "k \<noteq> Rasterization"
  shows "suffix (name f) (noticeOf k f)"
  using assms by (cases k) (simp_all add: noticeOf_def suffix_def)

section \<open>The claims\<close>

subsection \<open>C1: a failing image file\<close>

text \<open>
  C1 says that a failure while processing any single file gives one placeholder page and
  that the remaining files are processed.  The image branch has no \<open>try\<close>: for the list of
  a JPEG file whose bytes \<open>embedJpg\<close> rejects and a two-page PDF, \<open>mergeFilesToPdf\<close> throws
  the error of \<open>embedJpg\<close>; the document then holds the blank page added before the
  embedding, without a notice, and the PDF file is never reached.
\<close>

theorem image_failure_aborts:
  "mergeFilesToPdf demo_env [bad_jpg, b_pdf] None start =
     (Inl (Thrown ''SOI not found in JPEG''),
      \<lparr>pdfDoc = [Page (Dims (59528 / 100) (84189 / 100)) None []], body = [], nodes = 0,
       ui = [], trace = [AddPage]\<rparr>)"
  by (simp add: eval_simps demo_env_def bad_jpg_def b_pdf_def start_def)

subsection \<open>C2: the page count\<close>

text \<open>
  C2 says that the returned document has as many pages as the sum, over the input files,
  of the page count of the source for a successfully parsed PDF file and of 1 for every
  other file.  For the empty list the sum is 0, and the returned document has one page:
  the page \<open>save()\<close> adds to a document without pages.
\<close>

theorem empty_list_one_page:
  "fst (mergeFilesToPdf demo_env [] None start) = Inr [0] \<and>
   pdfDoc (snd (mergeFilesToPdf demo_env [] None start)) =
     [Page (Dims (59528 / 100) (84189 / 100)) None []] \<and>
   sum_list (map (expectedPageCount demo_env) []) = 0"
  by (simp add: eval_simps demo_env_def start_def)

text \<open>
  C2 as amended: the document \<open>mergeFilesToPdf\<close> returns (the document whose saved bytes it
  resolves to) has as many pages as that sum when the sum is not 0, and one page when it
  is 0.  The contract of \<open>copyPages\<close> is what makes a copied donor contribute as many pages
  as it has.
\<close>

theorem merged_page_count:
  assumes "copyPages_spec env"
    and "mergeFilesToPdf env files onProgress w = (Inr out, w')"
  shows "save env (pdfDoc w') = Inr out \<and>
         length (pdfDoc w') = max 1 (sum_list (map (expectedPageCount env) files))"
proof -
  have l: "length (concat (map (filePages env) files)) = sum_list (map (expectedPageCount env) files)"
    by (simp add: length_concat comp_def filePages_length [OF assms(1)])
  have "length (savedPages env (concat (map (filePages env) files))) =
      max 1 (length (concat (map (filePages env) files)))"
    by (cases "concat (map (filePages env) files)") (simp_all add: savedPages_def)
  then show ?thesis
    using mergeFilesToPdf_returns(3,4) [OF assms(2)] l by simp
qed

text \<open>The scenario of the specification: a PNG image and a two-page PDF give three pages.\<close>

theorem merged_page_count_witness:
  "copyPages_spec demo_env \<and>
   (\<exists>out w'. mergeFilesToPdf demo_env [a_png, b_pdf] None start = (Inr out, w') \<and>
      save demo_env (pdfDoc w') = Inr out \<and> length (pdfDoc w') = 3)"
proof -
  have "fst (mergeFilesToPdf demo_env [a_png, b_pdf] None start) = Inr [1, 0, 0]"
    by (simp add: eval_simps demo_env_def a_png_def b_pdf_def start_def)
  then obtain w' where m: "mergeFilesToPdf demo_env [a_png, b_pdf] None start = (Inr [1, 0, 0], w')"
    by (cases "mergeFilesToPdf demo_env [a_png, b_pdf] None start") simp
  have e: "sum_list (map (expectedPageCount demo_env) [a_png, b_pdf]) = 3"
    by (simp add: expectedPageCount_def sourcePdf_def getPageIndices_def demo_env_def
        a_png_def b_pdf_def)
  show ?thesis
    using merged_page_count [OF demo_copyPages_spec m] demo_copyPages_spec m e by simp
qed

subsection \<open>C3: the page order\<close>

text \<open>
  C3 says that the pages of the merged output are the pages the files contribute, in the
  order of the files.  For a PDF file that loads and has no page, the file contributes
  no page and the output has one page, which no file contributed: the page \<open>save()\<close> adds.
\<close>

theorem pageless_pdf_one_page:
  "fst (mergeFilesToPdf nopage_env [b_pdf] None start) = Inr [0] \<and>
   sourcePdf nopage_env b_pdf = Some [] \<and>
   pdfDoc (snd (mergeFilesToPdf nopage_env [b_pdf] None start)) =
     [Page (Dims (59528 / 100) (84189 / 100)) None []]"
  by (simp add: eval_simps sourcePdf_def nopage_env_def demo_env_def b_pdf_def start_def)

text \<open>
  C3 as amended: the pages of the merged output are the concatenation, in the order of
  the input files, of the run of each file, or the single blank page of \<open>save()\<close> when all
  runs are empty.  The run of a file is what the loop body appends for that file, from
  any state; it is the pages of the source, in the source's order, for a successfully
  parsed PDF file, and exactly one page for every other file.
\<close>

theorem merged_page_order:
  assumes "copyPages_spec env"
    and "mergeFilesToPdf env files onProgress w = (Inr out, w')"
  shows "pdfDoc w' =
           (if concat (map (filePages env) files) = [] then [Page (page_size env) None []]
            else concat (map (filePages env) files)) \<and>
         (\<forall>f \<in> set files.
            (\<forall>v. addedPages v (snd (processFile env onProgress f v)) = filePages env f) \<and>
            (case sourcePdf env f of
               Some d \<Rightarrow> filePages env f = map copiedPage d
             | None \<Rightarrow> length (filePages env f) = 1))"
  using mergeFilesToPdf_returns(3) [OF assms(2)] filePages_source [OF assms(1)]
  by (simp add: savedPages_def processFile_addedPages)

text \<open>The scenario of the specification: the page of the image, then the two pages of the PDF.\<close>

theorem merged_page_order_witness:
  "\<exists>out w'. mergeFilesToPdf demo_env [a_png, b_pdf] None start = (Inr out, w') \<and>
      pdfDoc w' =
        [Page (Dims (59528 / 100) (84189 / 100)) None
           [DrawImage (Image 500 500) 0 (24661 / 200) (59528 / 100) (59528 / 100)],
         Page (Dims 612 792) (Some [1]) [], Page (Dims 612 792) (Some [2]) []]"
proof -
  have "fst (mergeFilesToPdf demo_env [a_png, b_pdf] None start) = Inr [1, 0, 0]"
    by (simp add: eval_simps demo_env_def a_png_def b_pdf_def start_def)
  then obtain w' where m: "mergeFilesToPdf demo_env [a_png, b_pdf] None start = (Inr [1, 0, 0], w')"
    by (cases "mergeFilesToPdf demo_env [a_png, b_pdf] None start") simp
  have a: "filePages demo_env a_png =
      [Page (Dims (59528 / 100) (84189 / 100)) None
         [DrawImage (Image 500 500) 0 (24661 / 200) (59528 / 100) (59528 / 100)]]"
    by (simp add: filePages_def eval_simps Let_def demo_env_def a_png_def)
  have b: "filePages demo_env b_pdf =
      [Page (Dims 612 792) (Some [1]) [], Page (Dims 612 792) (Some [2]) []]"
    by (simp add: filePages_def eval_simps demo_env_def b_pdf_def)
  show ?thesis
    using merged_page_order [OF demo_copyPages_spec m] m a b by simp
qed

subsection \<open>C4: what a placeholder says\<close>

text \<open>
  C4 says that every placeholder carries a notice that names the offending file, also
  the one drawn inside \<open>embedHtmlAsImage\<close>.  That routine is not given the file: for a
  Word file that converts and then fails to render, the only page of the result carries
  the text \<open>Failed to render Office document\<close>, in which the name \<open>report.docx\<close> does not
  occur.
\<close>

theorem rasterization_notice_unnamed:
  "fst (mergeFilesToPdf norender_env [report_docx] None start) = Inr [1] \<and>
   pdfDoc (snd (mergeFilesToPdf norender_env [report_docx] None start)) =
     [Page (Dims (59528 / 100) (84189 / 100)) None
        [DrawText ''Failed to render Office document'' 50 (84189 / 200) 24
           (rgb (8 / 10) (2 / 10) (2 / 10))]] \<and>
   \<not> namesFile ''Failed to render Office document'' report_docx"
proof -
  have "\<not> sublist ''report.docx'' ''Failed to render Office document''"
    by (simp add: sublist_Cons_right)
  then show ?thesis
    by (simp add: eval_simps htmlPage_def rasterize_def norender_env_def demo_env_def
        report_docx_def start_def namesFile_def)
qed

text \<open>
  C4 as amended: in a run of \<open>mergeFilesToPdf\<close> that returns, for every input file that
  fails in one of the ways for which a placeholder is substituted, the loop body appends
  for that file exactly one page, which carries exactly one notice and is a page of the
  returned document; the notice ends with the name of the file, except for a
  rasterization failure, where it is the fixed text \<open>Failed to render Office document\<close>.
\<close>

theorem placeholder_notice:
  assumes "mergeFilesToPdf env files onProgress w = (Inr out, w')"
    and "f \<in> set files" and "failureOf env f = Some k"
  shows "(\<forall>v. addedPages v (snd (processFile env onProgress f v)) =
            [Page (page_size env) None
               [DrawText (noticeOf k f) 50 (height (page_size env) / 2) 24
                  (rgb (8 / 10) (2 / 10) (2 / 10))]]) \<and>
         Page (page_size env) None
           [DrawText (noticeOf k f) 50 (height (page_size env) / 2) 24
              (rgb (8 / 10) (2 / 10) (2 / 10))] \<in> set (pdfDoc w') \<and>
         (if k = Rasterization then noticeOf k f = ''Failed to render Office document''
          else suffix (name f) (noticeOf k f) \<and> namesFile (noticeOf k f) f)"
proof -
  have p: "filePages env f = [notice env (noticeOf k f)]"
    using failure_filePages [OF assms(3) returned_fileResult [OF assms(1,2)]] .
  have "notice env (noticeOf k f) \<in> set (pdfDoc w')"
    using returned_filePages [OF assms(1,2)] p by simp
  moreover have "suffix (name f) (noticeOf k f) \<and> namesFile (noticeOf k f) f"
    if "k \<noteq> Rasterization"
    using noticeOf_names [OF that, of f] by (simp add: namesFile_def suffix_imp_sublist)
  moreover have "noticeOf Rasterization f = ''Failed to render Office document''"
    by (simp add: noticeOf_def)
  ultimately show ?thesis
    using p by (auto simp add: processFile_addedPages notice_def)
qed

text \<open>A PDF that does not load, and a Word file that converts and does not render.\<close>

theorem placeholder_notice_witness:
  "(\<exists>out w'. mergeFilesToPdf demo_env [bad_pdf, a_png] None start = (Inr out, w') \<and>
      failureOf demo_env bad_pdf = Some UnparseablePdf \<and>
      Page (Dims (59528 / 100) (84189 / 100)) None
        [DrawText ''Could not load PDF: bad.pdf'' 50 (84189 / 200) 24
           (rgb (8 / 10) (2 / 10) (2 / 10))] \<in> set (pdfDoc w') \<and>
      namesFile ''Could not load PDF: bad.pdf'' bad_pdf) \<and>
   (\<exists>out w'. mergeFilesToPdf norender_env [report_docx] None start = (Inr out, w') \<and>
      failureOf norender_env report_docx = Some Rasterization \<and>
      Page (Dims (59528 / 100) (84189 / 100)) None
        [DrawText ''Failed to render Office document'' 50 (84189 / 200) 24
           (rgb (8 / 10) (2 / 10) (2 / 10))] \<in> set (pdfDoc w'))"
proof -
  have "fst (mergeFilesToPdf demo_env [bad_pdf, a_png] None start) = Inr [1, 1]"
    by (simp add: eval_simps demo_env_def bad_pdf_def a_png_def start_def)
  then obtain w1 where m1: "mergeFilesToPdf demo_env [bad_pdf, a_png] None start = (Inr [1, 1], w1)"
    by (cases "mergeFilesToPdf demo_env [bad_pdf, a_png] None start") simp
  have f1: "failureOf demo_env bad_pdf = Some UnparseablePdf"
    by (simp add: failureOf_def kindOf_def copied_def startsWith_def demo_env_def bad_pdf_def)
  have n1: "noticeOf UnparseablePdf bad_pdf = ''Could not load PDF: bad.pdf''"
    "page_size demo_env = Dims (59528 / 100) (84189 / 100)"
    by (simp_all add: noticeOf_def bad_pdf_def demo_env_def)
  have "fst (mergeFilesToPdf norender_env [report_docx] None start) = Inr [1]"
    by (simp add: eval_simps htmlPage_def rasterize_def norender_env_def demo_env_def
        report_docx_def start_def)
  then obtain w2 where m2: "mergeFilesToPdf norender_env [report_docx] None start = (Inr [1], w2)"
    by (cases "mergeFilesToPdf norender_env [report_docx] None start") simp
  have f2: "failureOf norender_env report_docx = Some Rasterization"
    by (simp add: failureOf_def kindOf_def rasterize_def startsWith_def norender_env_def
        demo_env_def report_docx_def)
  have n2: "noticeOf Rasterization report_docx = ''Failed to render Office document''"
    "page_size norender_env = Dims (59528 / 100) (84189 / 100)"
    by (simp_all add: noticeOf_def norender_env_def demo_env_def)
  show ?thesis
    using placeholder_notice [OF m1 _ f1] placeholder_notice [OF m2 _ f2] m1 m2 f1 f2 n1 n2
    by simp
qed

subsection \<open>C5: a PDF file that does not parse\<close>

text \<open>
  C5 says that a file declared \<open>application/pdf\<close> whose bytes do not parse gives exactly one
  placeholder page with the text \<open>Could not load PDF: \<close> and the name of the file, and that
  the files after it are processed.  The notice is drawn inside the \<open>catch\<close> block, with
  the standard font: for a truncated PDF whose name has Arabic letters, before an image,
  \<open>drawText\<close> throws, nothing catches it, \<open>mergeFilesToPdf\<close> throws, the page added for the
  notice stays blank and the image is never reached.
\<close>

theorem unencodable_pdf_name_aborts:
  "mergeFilesToPdf demo_env [arabic_pdf, a_png] None start =
     (Inl (Thrown ''WinAnsi cannot encode''),
      \<lparr>pdfDoc = [Page (Dims (59528 / 100) (84189 / 100)) None []], body = [], nodes = 0,
       ui = [], trace = [AddPage]\<rparr>)"
  by (simp add: eval_simps demo_env_def arabic_pdf_def a_png_def start_def)

subsection \<open>C6: scaling and centring\<close>

text \<open>
  C6: an embedded bitmap of size \<open>iw\<close> by \<open>ih\<close> on a page of size \<open>pw\<close> by \<open>ph\<close> is drawn with
  size \<open>(iw * s, ih * s)\<close> at \<open>((pw - iw * s) / 2, (ph - ih * s) / 2)\<close>, where
  \<open>s = min (pw / iw) (ph / ih)\<close>, both for a directly embedded JPEG or PNG image and for a
  rasterized Office document; so the aspect ratio is kept and the image is centred in
  both directions.  The image has a positive size (division by zero differs between
  JavaScript and the real numbers).
\<close>

theorem bitmap_placement:
  assumes "page_size env = Dims pw ph" and "0 < iw" and "0 < ih"
    and "s = min (pw / iw) (ph / ih)"
  shows "(startsWith (type f) ''image/'' \<and>
          (type f = ''image/jpeg'' \<and> embedJpg env (arrayBuffer f) = Inr (Image iw ih) \<or>
           type f = ''image/png'' \<and> embedPng env (arrayBuffer f) = Inr (Image iw ih)) \<longrightarrow>
            addedPages w (snd (processFile env onProgress f w)) =
              [Page (Dims pw ph) None
                 [DrawImage (Image iw ih) ((pw - iw * s) / 2) ((ph - ih * s) / 2) (iw * s) (ih * s)]]) \<and>
         (html2canvas env (snd (fst (makeContainer htmlContent w))) 2 = Inr cv \<and>
          toDataURL env cv ''image/jpeg'' (9 / 10) = Inr url \<and>
          fetch_arrayBuffer env url = Inr jpgBytes \<and>
          embedJpg env jpgBytes = Inr (Image iw ih) \<longrightarrow>
            addedPages w (snd (embedHtmlAsImage env htmlContent w)) =
              [Page (Dims pw ph) None
                 [DrawImage (Image iw ih) ((pw - iw * s) / 2) ((ph - ih * s) / 2) (iw * s) (ih * s)]]) \<and>
         (iw * s) * ih = (ih * s) * iw \<and>
         (pw - iw * s) / 2 + (iw * s) / 2 = pw / 2 \<and>
         (ph - ih * s) / 2 + (ih * s) / 2 = ph / 2"
proof -
  have fit: "fitted (Dims pw ph) (Image iw ih) =
      DrawImage (Image iw ih) ((pw - iw * s) / 2) ((ph - ih * s) / 2) (iw * s) (ih * s)"
    by (simp add: fitted_def Let_def assms(4))
  have direct: "filePages env f = [Page (Dims pw ph) None [fitted (Dims pw ph) (Image iw ih)]]"
    if "startsWith (type f) ''image/''"
      and "type f = ''image/jpeg'' \<and> embedJpg env (arrayBuffer f) = Inr (Image iw ih) \<or>
           type f = ''image/png'' \<and> embedPng env (arrayBuffer f) = Inr (Image iw ih)"
    using that assms(1) by (auto simp add: filePages_def kindOf_def embedded_def)
  have raster: "htmlPage env htmlContent = Page (Dims pw ph) None [fitted (Dims pw ph) (Image iw ih)]"
    if "html2canvas env (snd (fst (makeContainer htmlContent w))) 2 = Inr cv"
      and "toDataURL env cv ''image/jpeg'' (9 / 10) = Inr url"
      and "fetch_arrayBuffer env url = Inr jpgBytes"
      and "embedJpg env jpgBytes = Inr (Image iw ih)"
    using that assms(1) by (simp add: htmlPage_def rasterize_def makeContainer_eq)
  have "(pw - iw * s) / 2 + (iw * s) / 2 = pw / 2" and "(ph - ih * s) / 2 + (ih * s) / 2 = ph / 2"
    by (simp_all add: field_simps)
  then show ?thesis
    using direct raster
    by (simp add: processFile_addedPages embedHtmlAsImage_addedPages fit)
qed

theorem bitmap_placement_witness:
  "page_size demo_env = Dims (59528 / 100) (84189 / 100) \<and>
   startsWith (type a_png) ''image/'' \<and> type a_png = ''image/png'' \<and>
   embedPng demo_env (arrayBuffer a_png) = Inr (Image 500 500) \<and>
   addedPages start (snd (processFile demo_env None a_png start)) =
     [Page (Dims (59528 / 100) (84189 / 100)) None
        [DrawImage (Image 500 500) 0 (24661 / 200) (59528 / 100) (59528 / 100)]] \<and>
   addedPages start (snd (embedHtmlAsImage demo_env ''<p>text</p>'' start)) =
     [Page (Dims (59528 / 100) (84189 / 100)) None
        [DrawImage (Image 500 500) 0 (24661 / 200) (59528 / 100) (59528 / 100)]]"
proof -
  have p: "page_size demo_env = Dims (59528 / 100) (84189 / 100)"
    by (simp add: demo_env_def)
  have s: "(59528 / 50000 :: real) = min ((59528 / 100) / 500) ((84189 / 100) / 500)"
    by simp
  have i: "startsWith (type a_png) ''image/''" "type a_png = ''image/png''"
    "embedPng demo_env (arrayBuffer a_png) = Inr (Image 500 500)"
    by (simp_all add: a_png_def demo_env_def startsWith_def)
  have r: "html2canvas demo_env (snd (fst (makeContainer ''<p>text</p>'' start))) 2 = Inr (Canvas 1632 2112)"
    "toDataURL demo_env (Canvas 1632 2112) ''image/jpeg'' (9 / 10) = Inr ''data:image/jpeg;base64,''"
    "fetch_arrayBuffer demo_env ''data:image/jpeg;base64,'' = Inr [255, 216]"
    "embedJpg demo_env [255, 216] = Inr (Image 500 500)"
    by (simp_all add: demo_env_def)
  show ?thesis
    using bitmap_placement [where env = demo_env and pw = "59528 / 100" and ph = "84189 / 100"
        and iw = 500 and ih = 500 and s = "59528 / 50000" and f = a_png and w = start
        and onProgress = None and htmlContent = "''<p>text</p>''" and cv = "Canvas 1632 2112"
        and url = "''data:image/jpeg;base64,''" and jpgBytes = "[255, 216]"] p s i r
    by simp
qed

subsection \<open>C7: an image type that is not supported\<close>

text \<open>
  C7 says that a file whose declared type starts with \<open>image/\<close> and is neither
  \<open>image/jpeg\<close> nor \<open>image/png\<close> gives exactly one placeholder page with an unsupported
  image notice that names the file, and that \<open>mergeFilesToPdf\<close> does not throw.  The
  notice is drawn at line 101, outside any \<open>try\<close>, with the standard font: for a GIF
  file whose name has Arabic letters, before an image, \<open>drawText\<close> throws and so does
  \<open>mergeFilesToPdf\<close>; the page added for the file stays blank.
\<close>

theorem unencodable_image_name_aborts:
  "mergeFilesToPdf demo_env [arabic_gif, a_png] None start =
     (Inl (Thrown ''WinAnsi cannot encode''),
      \<lparr>pdfDoc = [Page (Dims (59528 / 100) (84189 / 100)) None []], body = [], nodes = 0,
       ui = [], trace = [AddPage]\<rparr>)"
  by (simp add: eval_simps demo_env_def arabic_gif_def a_png_def start_def)

subsection \<open>C8: the off-screen container\<close>

text \<open>
  C8: on every call of \<open>embedHtmlAsImage\<close>, whatever the renderer and the later steps do,
  the container is positioned absolutely at \<open>-9999px\<close> when it is attached and rendered,
  the call does not throw, its effects are: attach, render, add a page, remove, in this
  order, and afterwards the container is not a child of the body; when the elements of
  the body were created earlier, the body is as it was before the call.
\<close>

theorem container_offscreen_and_removed:
  "let container = fst (makeContainer htmlContent w);
       r = embedHtmlAsImage env htmlContent w
   in style_position (snd container) = ''absolute'' \<and>
      style_left (snd container) = ''-9999px'' \<and>
      fst r = Inr () \<and>
      trace (snd r) =
        trace w @ [AppendChild container, Html2canvas container, AddPage, RemoveChild container] \<and>
      fst container \<notin> fst ` set (body (snd r)) \<and>
      ((\<forall>x \<in> set (body w). fst x < nodes w) \<longrightarrow> body (snd r) = body w)"
proof -
  have "filter (\<lambda>x. fst x \<noteq> nodes w) (body w) = body w" if "\<forall>x \<in> set (body w). fst x < nodes w"
    using that by (simp add: filter_id_conv) fastforce
  then show ?thesis
    by (auto simp add: Let_def makeContainer_eq embedHtmlAsImage_eq offscreen_def)
qed

text \<open>A body with one child, with a renderer that fails and with one that succeeds.\<close>

theorem container_offscreen_and_removed_witness:
  "fst ` set (body busy) = {0} \<and> nodes busy = 1 \<and>
   fst (embedHtmlAsImage norender_env ''<p>text</p>'' busy) = Inr () \<and>
   body (snd (embedHtmlAsImage norender_env ''<p>text</p>'' busy)) = body busy \<and>
   fst (embedHtmlAsImage demo_env ''<p>text</p>'' busy) = Inr () \<and>
   body (snd (embedHtmlAsImage demo_env ''<p>text</p>'' busy)) = body busy \<and>
   last (trace (snd (embedHtmlAsImage norender_env ''<p>text</p>'' busy))) =
     RemoveChild (fst (makeContainer ''<p>text</p>'' busy))"
proof -
  have b: "\<forall>x \<in> set (body busy). fst x < nodes busy"
    by (simp add: busy_def start_def)
  show ?thesis
    using container_offscreen_and_removed [of "''<p>text</p>''" busy norender_env]
      container_offscreen_and_removed [of "''<p>text</p>''" busy demo_env] b
    by (simp add: Let_def busy_def start_def)
qed

subsection \<open>C9: the progress callback\<close>

text \<open>
  C9 says that the callback is called exactly once per input file, in the order of the
  list.  A throw in the loop body leaves the loop: for the list of a JPEG file whose
  bytes \<open>embedJpg\<close> rejects and a PDF, with a callback that records the length of each
  name, the callback is called for the first file only.
\<close>

theorem progress_stops_at_failing_image:
  "mergeFilesToPdf demo_env [bad_jpg, b_pdf] (Some record_length) start =
     (Inl (Thrown ''SOI not found in JPEG''),
      \<lparr>pdfDoc = [Page (Dims (59528 / 100) (84189 / 100)) None []], body = [], nodes = 0,
       ui = [9], trace = [Progress ''photo.jpg'', AddPage]\<rparr>)"
  by (simp add: eval_simps record_length_def demo_env_def bad_jpg_def b_pdf_def start_def)

subsection \<open>C10: the declared type comes before the extension\<close>

text \<open>
  C10: a file whose declared type starts with \<open>image/\<close> takes the image branch and a file
  declared \<open>application/pdf\<close> takes the PDF branch, whatever the name; the extension is
  looked at only when neither test matched, on the lower-cased name, so that a name
  ending in \<open>.DOCX\<close> or \<open>.XLSX\<close> takes the Word or the Excel branch.
\<close>

theorem dispatch_order:
  "(startsWith (type f) ''image/'' \<longrightarrow>
      processFile env onProgress f w = image_branch env f (notify onProgress (name f) w)) \<and>
   (type f = ''application/pdf'' \<longrightarrow>
      processFile env onProgress f w = pdf_branch env f (notify onProgress (name f) w)) \<and>
   (\<not> startsWith (type f) ''image/'' \<and> type f \<noteq> ''application/pdf'' \<and>
    (type f = ''application/vnd.openxmlformats-officedocument.wordprocessingml.document'' \<or>
     endsWith (toLowerCase (name f)) ''.docx'') \<longrightarrow>
      processFile env onProgress f w = word_branch env f (notify onProgress (name f) w)) \<and>
   (\<not> startsWith (type f) ''image/'' \<and> type f \<noteq> ''application/pdf'' \<and>
    type f \<noteq> ''application/vnd.openxmlformats-officedocument.wordprocessingml.document'' \<and>
    \<not> endsWith (toLowerCase (name f)) ''.docx'' \<and>
    (type f = ''application/vnd.openxmlformats-officedocument.spreadsheetml.sheet'' \<or>
     endsWith (toLowerCase (name f)) ''.xlsx'') \<longrightarrow>
      processFile env onProgress f w = excel_branch env f (notify onProgress (name f) w)) \<and>
   (\<not> startsWith (type f) ''image/'' \<and> type f \<noteq> ''application/pdf'' \<and>
    endsWith (name f) ''.DOCX'' \<longrightarrow>
      processFile env onProgress f w = word_branch env f (notify onProgress (name f) w)) \<and>
   (\<not> startsWith (type f) ''image/'' \<and> type f \<noteq> ''application/pdf'' \<and>
    type f \<noteq> ''application/vnd.openxmlformats-officedocument.wordprocessingml.document'' \<and>
    endsWith (name f) ''.XLSX'' \<longrightarrow>
      processFile env onProgress f w = excel_branch env f (notify onProgress (name f) w))"
proof -
  have d: "endsWith (toLowerCase (name f)) ''.docx''" if "endsWith (name f) ''.DOCX''"
    using toLowerCase_suffix [OF that] by (simp add: lower_DOCX)
  have x: "endsWith (toLowerCase (name f)) ''.xlsx''" if "endsWith (name f) ''.XLSX''"
    using toLowerCase_suffix [OF that] by (simp add: lower_XLSX)
  have i: "\<not> startsWith ''application/pdf'' ''image/''"
    by (simp add: startsWith_def)
  show ?thesis
    using d x i xlsx_not_docx [of "toLowerCase (name f)"]
    by (auto simp add: processFile_def Let_def)
qed

theorem dispatch_order_witness:
  "processFile demo_env None scan_docx start = image_branch demo_env scan_docx start \<and>
   processFile demo_env None form_xlsx start = pdf_branch demo_env form_xlsx start \<and>
   processFile demo_env None report_docx start = word_branch demo_env report_docx start \<and>
   processFile demo_env None upper_docx start = word_branch demo_env upper_docx start \<and>
   processFile demo_env None upper_xlsx start = excel_branch demo_env upper_xlsx start"
proof -
  have i: "startsWith (type scan_docx) ''image/''"
    by (simp add: scan_docx_def startsWith_def)
  have p: "type form_xlsx = ''application/pdf''"
    by (simp add: form_xlsx_def)
  have r: "\<not> startsWith (type report_docx) ''image/''" "type report_docx \<noteq> ''application/pdf''"
    "type report_docx = ''application/vnd.openxmlformats-officedocument.wordprocessingml.document''"
    by (simp_all add: report_docx_def startsWith_def)
  have d: "\<not> startsWith (type upper_docx) ''image/''" "type upper_docx \<noteq> ''application/pdf''"
    "endsWith (name upper_docx) ''.DOCX''"
    by (simp_all add: upper_docx_def startsWith_def endsWith_def suffix_to_prefix)
  have x: "\<not> startsWith (type upper_xlsx) ''image/''" "type upper_xlsx \<noteq> ''application/pdf''"
    "type upper_xlsx \<noteq> ''application/vnd.openxmlformats-officedocument.wordprocessingml.document''"
    "endsWith (name upper_xlsx) ''.XLSX''"
    by (simp_all add: upper_xlsx_def startsWith_def endsWith_def suffix_to_prefix)
  have n: "notify None s start = start" for s
    by (simp add: notify_def)
  show ?thesis
    using dispatch_order [of scan_docx demo_env None start]
      dispatch_order [of form_xlsx demo_env None start]
      dispatch_order [of report_docx demo_env None start]
      dispatch_order [of upper_docx demo_env None start]
      dispatch_order [of upper_xlsx demo_env None start] i p r d x n
    by simp
qed

end
